theory Spec2Isabelle
  imports Main
begin

section \<open>Raw YAML nodes\<close>

text \<open>
  The raw tree is produced by the YAML parser (\<^verbatim>\<open>yaml-ast-parser\<close>). Every raw node
  carries \<^verbatim>\<open>startPosition\<close>, \<^verbatim>\<open>endPosition\<close> and a list \<^verbatim>\<open>errors\<close> of parser
  exceptions; each exception has a \<^verbatim>\<open>reason\<close>, an \<^verbatim>\<open>isWarning\<close> flag and a
  \<^verbatim>\<open>mark\<close> with a \<^verbatim>\<open>position\<close> and a \<^verbatim>\<open>column\<close>.
\<close>

record Mark =
  position :: int
  column :: int

record YAMLException =
  reason :: string
  isWarning :: bool
  mark :: Mark

record base =
  startPosition :: int
  endPosition :: int
  errors :: "YAMLException list"

text \<open>
  One constructor for each \<^verbatim>\<open>Yaml.Kind\<close> that \<^verbatim>\<open>recursivelyBuildAst\<close> switches on:
  a map holds its \<^verbatim>\<open>mappings\<close>, a mapping its \<^verbatim>\<open>key\<close> and its optional \<^verbatim>\<open>value\<close>,
  a sequence its \<^verbatim>\<open>items\<close> (an item may be \<^verbatim>\<open>null\<close>, here \<open>None\<close>), a scalar its
  \<^verbatim>\<open>value\<close> text and its \<^verbatim>\<open>plainScalar\<close> flag, an anchor reference the node it
  resolves to (if any), an include reference its text. The switch has no \<^verbatim>\<open>default\<close>:
  \<open>OTHER_KIND\<close> stands for a node whose \<^verbatim>\<open>kind\<close> no \<^verbatim>\<open>case\<close> names.
\<close>

datatype YAMLNode =
    MAP base "YAMLNode list"
  | MAPPING base YAMLNode "YAMLNode option"
  | SEQ base "YAMLNode option list"
  | SCALAR base string bool
  | ANCHOR_REF base "YAMLNode option"
  | INCLUDE_REF base string
  | OTHER_KIND base

fun node_base :: "YAMLNode \<Rightarrow> base" where
  "node_base (MAP b ms) = b"
| "node_base (MAPPING b k v) = b"
| "node_base (SEQ b its) = b"
| "node_base (SCALAR b v p) = b"
| "node_base (ANCHOR_REF b v) = b"
| "node_base (INCLUDE_REF b v) = b"
| "node_base (OTHER_KIND b) = b"

text \<open>The \<^verbatim>\<open>value\<close> property of a raw node: text, another node, or nothing.\<close>

datatype NodeValue = ValueText string | ValueNode "YAMLNode option" | ValueUndefined

fun node_value :: "YAMLNode \<Rightarrow> NodeValue" where
  "node_value (SCALAR b v p) = ValueText v"
| "node_value (INCLUDE_REF b v) = ValueText v"
| "node_value (MAPPING b k v) = ValueNode v"
| "node_value (ANCHOR_REF b v) = ValueNode v"
| "node_value (MAP b ms) = ValueUndefined"
| "node_value (SEQ b its) = ValueUndefined"
| "node_value (OTHER_KIND b) = ValueUndefined"

text \<open>
  \<^verbatim>\<open>Yaml.ScalarType\<close>, the result of \<^verbatim>\<open>Yaml.determineScalarType\<close>. The inner switch
  has no \<^verbatim>\<open>default\<close> either: \<open>ST_other\<close> is a result that no \<^verbatim>\<open>case\<close> names.
\<close>

datatype ScalarType = ST_null | ST_bool | ST_int | ST_float | ST_string | ST_other

text \<open>
  The functions of the parser and of \<^verbatim>\<open>./scalar-type\<close> that the scalar case calls are
  parameters of the model. \<open>'n\<close> is the type of JavaScript numbers, left open.
  \<open>parseYamlBoolean\<close> is the import from \<^verbatim>\<open>./scalar-type\<close>, the fields named
  \<open>Yaml_\<close> are the members of the \<^verbatim>\<open>Yaml\<close> namespace.
\<close>

record 'n collaborators =
  determineScalarType :: "YAMLNode \<Rightarrow> ScalarType"
  parseYamlBoolean :: "string \<Rightarrow> bool"
  Yaml_parseYamlBoolean :: "string \<Rightarrow> bool"
  Yaml_parseYamlInteger :: "string \<Rightarrow> 'n"
  Yaml_parseYamlFloat :: "string \<Rightarrow> 'n"

section \<open>AST nodes in a store\<close>

text \<open>
  Modelled from the spec: the node classes of \<^verbatim>\<open>jsonParser.ts\<close>, which is not among
  the sources. Every node has a parent reference (or none), a start offset and a length;
  an Object holds its properties, a Property its key and value node, an Array its
  items, a Number whether it is integral. Each constructor call of the source is recorded
  with the arguments it passes: a call that passes no length leaves \<open>length_of\<close> at
  \<open>None\<close>.

  AST nodes are objects that refer to each other (children to their parent, composites to
  their children) and composites are filled after their children exist, so nodes live in
  a store and are named by their index in it. \<open>alloc\<close> is \<^verbatim>\<open>new\<close>.
\<close>

type_synonym ref = nat

datatype 'n ASTNode =
    ObjectASTNode (parent_of: "ref option") (offset_of: int) (length_of: "int option")
      (properties_of: "ref option list")
  | PropertyASTNode (parent_of: "ref option") (offset_of: int) (length_of: "int option")
      (keyNode_of: "ref option") (valueNode_of: "ref option")
  | ArrayASTNode (parent_of: "ref option") (offset_of: int) (length_of: "int option")
      (items_of: "ref option list")
  | StringASTNode (parent_of: "ref option") (offset_of: int) (length_of: "int option")
      (string_value_of: NodeValue)
  | NumberASTNode (parent_of: "ref option") (offset_of: int) (length_of: "int option")
      (number_value_of: 'n) (isInteger_of: bool)
  | BooleanASTNode (parent_of: "ref option") (offset_of: int) (length_of: "int option")
      (boolean_value_of: bool)
  | NullASTNode (parent_of: "ref option") (offset_of: int) (length_of: "int option")

type_synonym 'n store = "'n ASTNode list"

definition alloc :: "'n ASTNode \<Rightarrow> 'n store \<Rightarrow> ref \<times> 'n store" where
  "alloc n s = (length s, s @ [n])"

text \<open>\<^verbatim>\<open>result.properties.push(p)\<close>, \<^verbatim>\<open>result.items.push(i)\<close> and the two
  assignments \<^verbatim>\<open>result.keyNode = k\<close>, \<^verbatim>\<open>result.valueNode = v\<close>.\<close>

definition push_property :: "ref \<Rightarrow> ref option \<Rightarrow> 'n store \<Rightarrow> 'n store" where
  "push_property r p s =
     (if r < length s then
        (case s ! r of
           ObjectASTNode pa off len ps \<Rightarrow> s[r := ObjectASTNode pa off len (ps @ [p])]
         | _ \<Rightarrow> s)
      else s)"

definition push_item :: "ref \<Rightarrow> ref option \<Rightarrow> 'n store \<Rightarrow> 'n store" where
  "push_item r i s =
     (if r < length s then
        (case s ! r of
           ArrayASTNode pa off len is \<Rightarrow> s[r := ArrayASTNode pa off len (is @ [i])]
         | _ \<Rightarrow> s)
      else s)"

definition set_keyNode :: "ref \<Rightarrow> ref option \<Rightarrow> 'n store \<Rightarrow> 'n store" where
  "set_keyNode r k s =
     (if r < length s then
        (case s ! r of
           PropertyASTNode pa off len k0 v0 \<Rightarrow> s[r := PropertyASTNode pa off len k v0]
         | _ \<Rightarrow> s)
      else s)"

definition set_valueNode :: "ref \<Rightarrow> ref option \<Rightarrow> 'n store \<Rightarrow> 'n store" where
  "set_valueNode r v s =
     (if r < length s then
        (case s ! r of
           PropertyASTNode pa off len k0 v0 \<Rightarrow> s[r := PropertyASTNode pa off len k0 v]
         | _ \<Rightarrow> s)
      else s)"

section \<open>AstBuilder: \<^verbatim>\<open>recursivelyBuildAst\<close>\<close>

definition possibleBooleanValues :: "string list" where
  "possibleBooleanValues =
     [''y'', ''Y'', ''yes'', ''Yes'', ''YES'', ''n'', ''N'', ''no'', ''No'', ''NO'',
      ''on'', ''On'', ''ON'', ''off'', ''Off'', ''OFF'']"

text \<open>
  \<open>recursivelyBuildAst c parent node s\<close> returns the reference of the node it built (or
  \<open>None\<close> where the source returns \<^verbatim>\<open>undefined\<close>) and the store after the call.
  \<open>buildProperties\<close> is the \<^verbatim>\<open>for\<close> loop of the map case and \<open>buildItems\<close> the one of
  the sequence case. The latter carries the loop's variable \<^verbatim>\<open>count\<close>, which the source
  initialises to 0 and never assigns again, and \<^verbatim>\<open>instance.items.length\<close>.
\<close>

function recursivelyBuildAst ::
    "'n collaborators \<Rightarrow> ref option \<Rightarrow> YAMLNode option \<Rightarrow> 'n store \<Rightarrow> ref option \<times> 'n store"
  and buildProperties ::
    "'n collaborators \<Rightarrow> ref \<Rightarrow> YAMLNode list \<Rightarrow> 'n store \<Rightarrow> 'n store"
  and buildItems ::
    "'n collaborators \<Rightarrow> ref option \<Rightarrow> ref \<Rightarrow> base \<Rightarrow> int \<Rightarrow> int \<Rightarrow> YAMLNode option list
       \<Rightarrow> 'n store \<Rightarrow> 'n store"
where
  "recursivelyBuildAst c parent None s = (None, s)"
| "recursivelyBuildAst c parent (Some (MAP b mappings)) s =
     (let (result, s1) =
            alloc (ObjectASTNode parent (startPosition b)
                     (Some (endPosition b - startPosition b)) []) s
      in (Some result, buildProperties c result mappings s1))"
| "recursivelyBuildAst c parent (Some (MAPPING b key val)) s =
     (let (result, s1) =
            alloc (PropertyASTNode parent (startPosition (node_base key))
                     (Some (endPosition b - startPosition (node_base key))) None None) s;
          (keyNode, s2) =
            alloc (StringASTNode (Some result) (startPosition (node_base key))
                     (Some (endPosition (node_base key) - startPosition (node_base key)))
                     (node_value key)) s1;
          (valueNode, s3) =
            (case val of
               Some v \<Rightarrow> recursivelyBuildAst c (Some result) (Some v) s2
             | None \<Rightarrow>
                 (let (n, s') = alloc (NullASTNode parent (startPosition b) None) s2
                  in (Some n, s')))
      in (Some result, set_valueNode result valueNode (set_keyNode result (Some keyNode) s3)))"
| "recursivelyBuildAst c parent (Some (SEQ b its)) s =
     (let (result, s1) =
            alloc (ArrayASTNode parent (startPosition b)
                     (Some (endPosition b - startPosition b)) []) s
      in (Some result, buildItems c parent result b (int (length its)) 0 its s1))"
| "recursivelyBuildAst c parent (Some (SCALAR b v plainScalar)) s =
     (let type = determineScalarType c (SCALAR b v plainScalar)
      in if plainScalar \<and> v \<in> set possibleBooleanValues then
           (let (n, s') = alloc (BooleanASTNode parent (startPosition b)
                                   (Some (endPosition b - startPosition b))
                                   (parseYamlBoolean c v)) s
            in (Some n, s'))
         else
           (case type of
              ST_null \<Rightarrow>
                (let (n, s') = alloc (NullASTNode parent (startPosition b)
                                        (Some (endPosition b - startPosition b))) s
                 in (Some n, s'))
            | ST_bool \<Rightarrow>
                (let (n, s') = alloc (BooleanASTNode parent (startPosition b)
                                        (Some (endPosition b - startPosition b))
                                        (Yaml_parseYamlBoolean c v)) s
                 in (Some n, s'))
            | ST_int \<Rightarrow>
                (let (n, s') = alloc (NumberASTNode parent (startPosition b)
                                        (Some (endPosition b - startPosition b))
                                        (Yaml_parseYamlInteger c v) True) s
                 in (Some n, s'))
            | ST_float \<Rightarrow>
                (let (n, s') = alloc (NumberASTNode parent (startPosition b)
                                        (Some (endPosition b - startPosition b))
                                        (Yaml_parseYamlFloat c v) False) s
                 in (Some n, s'))
            | ST_string \<Rightarrow>
                (let (n, s') = alloc (StringASTNode parent (startPosition b)
                                        (Some (endPosition b - startPosition b))
                                        (ValueText v)) s
                 in (Some n, s'))
            | ST_other \<Rightarrow> (None, s)))"
| "recursivelyBuildAst c parent (Some (ANCHOR_REF b target)) s =
     (case recursivelyBuildAst c parent target s of
        (Some r, s1) \<Rightarrow> (Some r, s1)
      | (None, s1) \<Rightarrow>
          (let (n, s') = alloc (NullASTNode parent (startPosition b)
                                  (Some (endPosition b - startPosition b))) s1
           in (Some n, s')))"
| "recursivelyBuildAst c parent (Some (INCLUDE_REF b v)) s =
     (let (n, s') = alloc (StringASTNode parent (startPosition b)
                             (Some (endPosition b - startPosition b)) (ValueText v)) s
      in (Some n, s'))"
| "recursivelyBuildAst c parent (Some (OTHER_KIND b)) s = (None, s)"
| "buildProperties c result [] s = s"
| "buildProperties c result (mapping # rest) s =
     (let (p, s1) = recursivelyBuildAst c (Some result) (Some mapping) s
      in buildProperties c result rest (push_property result p s1))"
| "buildItems c parent result b len count [] s = s"
| "buildItems c parent result b len count (item # rest) s =
     (if item = None \<and> count = len - 1 then s
      else
        (let (itemNode, s1) =
               (case item of
                  None \<Rightarrow>
                    (let (n, s') = alloc (NullASTNode parent (startPosition b)
                                            (Some (endPosition b - startPosition b))) s
                     in (Some n, s'))
                | Some it \<Rightarrow> recursivelyBuildAst c (Some result) (Some it) s)
         in buildItems c parent result b len count rest (push_item result itemNode s1)))"
  by pat_completeness auto

termination
  by (relation "measure (\<lambda>x. case x of
          Inl (c, parent, node, s) \<Rightarrow> (case node of None \<Rightarrow> 0 | Some n \<Rightarrow> 2 * size n)
        | Inr (Inl (c, result, ms, s)) \<Rightarrow> 2 * size_list size ms + 1
        | Inr (Inr (c, parent, result, b, len, count, its, s)) \<Rightarrow>
            2 * size_list (size_option size) its + 1)")
     (auto split: option.splits)

section \<open>DiagnosticFilter and \<^verbatim>\<open>createJSONDocument\<close>\<close>

text \<open>
  A diagnostic of a document is an object with a \<^verbatim>\<open>message\<close>, a \<^verbatim>\<open>location\<close> and a
  \<^verbatim>\<open>code\<close>. \<^verbatim>\<open>convertError\<close> puts the code inside the location, the structural error of
  \<^verbatim>\<open>createJSONDocument\<close> beside it, so both places are fields and the one an object
  lacks is \<open>None\<close>. Of \<^verbatim>\<open>ErrorCode\<close> the source uses \<^verbatim>\<open>Undefined\<close> only.
\<close>

datatype ErrorCode = Undefined

record Location =
  start :: int
  end_offset :: int
  location_code :: "ErrorCode option"

record Diagnostic =
  message :: string
  code :: "ErrorCode option"
  location :: Location

definition convertError :: "YAMLException \<Rightarrow> Diagnostic" where
  "convertError e =
     \<lparr>message = reason e, code = None,
      location = \<lparr>start = position (mark e),
                  end_offset = position (mark e) + column (mark e),
                  location_code = Some Undefined\<rparr>\<rparr>"

text \<open>
  JavaScript's \<^verbatim>\<open>String.prototype.substring\<close> on integer arguments (each index is
  clamped to the string, and the two are swapped when the first is the larger one) and
  \<^verbatim>\<open>String.prototype.startsWith\<close>.
\<close>

definition substring :: "string \<Rightarrow> int \<Rightarrow> int \<Rightarrow> string" where
  "substring t a b =
     (let n = int (length t);
          a' = min (max a 0) n;
          b' = min (max b 0) n;
          lo = min a' b';
          hi = max a' b'
      in take (nat (hi - lo)) (drop (nat lo) t))"

definition startsWith :: "string \<Rightarrow> string \<Rightarrow> bool" where
  "startsWith t p = (take (length p) t = p)"

definition duplicateKeyReason :: string where
  "duplicateKeyReason = ''duplicate key''"

definition isDuplicateAndNotMergeKey :: "YAMLException \<Rightarrow> string \<Rightarrow> bool" where
  "isDuplicateAndNotMergeKey error yamlText =
     (let errorConverted = convertError error;
          errorStart = start (location errorConverted);
          errorEnd = end_offset (location errorConverted)
      in if reason error = duplicateKeyReason
            \<and> startsWith (substring yamlText errorStart errorEnd) ''<<''
         then False else True)"

text \<open>The two predicates that \<^verbatim>\<open>createJSONDocument\<close> passes to \<^verbatim>\<open>filter\<close>:
  \<^verbatim>\<open>e => e.reason !== duplicateKeyReason && !e.isWarning\<close> for the errors and
  \<^verbatim>\<open>e => (e.reason === duplicateKeyReason && isDuplicateAndNotMergeKey(e, text)) || e.isWarning\<close>
  for the warnings.\<close>

definition errorEntry :: "YAMLException \<Rightarrow> bool" where
  "errorEntry e = (reason e \<noteq> duplicateKeyReason \<and> \<not> isWarning e)"

definition warningEntry :: "string \<Rightarrow> YAMLException \<Rightarrow> bool" where
  "warningEntry text e =
     ((reason e = duplicateKeyReason \<and> isDuplicateAndNotMergeKey e text) \<or> isWarning e)"

text \<open>
  Modelled from the spec: \<^verbatim>\<open>SingleYAMLDocument\<close> of \<^verbatim>\<open>yamlLanguageTypes.ts\<close>, which is
  not among the sources: a document holds the line-start table, an optional root and the
  ordered errors and warnings, both empty when the document is created. \<open>nodes\<close> is
  the store the root lives in.

  \<^verbatim>\<open>localize\<close> is the message bundle of \<^verbatim>\<open>vscode-nls\<close>; with no bundle loaded it
  returns the default message it is given.
\<close>

record 'n SingleYAMLDocument =
  lines :: "int list"
  root :: "ref option"
  nodes :: "'n store"
  doc_errors :: "Diagnostic list"
  doc_warnings :: "Diagnostic list"

definition localize :: "string \<Rightarrow> string \<Rightarrow> string" where
  "localize key msg = msg"

datatype error = TypeError

text \<open>The object that \<^verbatim>\<open>createJSONDocument\<close> pushes when the document has no root.\<close>

definition structuralError :: "YAMLNode \<Rightarrow> Diagnostic" where
  "structuralError yamlDoc =
     \<lparr>message = localize ''Invalid symbol'' ''Expected a YAML object, array or literal'',
      code = Some Undefined,
      location = \<lparr>start = startPosition (node_base yamlDoc),
                  end_offset = endPosition (node_base yamlDoc),
                  location_code = None\<rparr>\<rparr>"

text \<open>
  With no raw document, \<^verbatim>\<open>recursivelyBuildAst\<close> returns nothing and the read of
  \<^verbatim>\<open>yamlDoc.startPosition\<close> that follows raises a \<^verbatim>\<open>TypeError\<close>.
\<close>

definition createJSONDocument ::
    "'n collaborators \<Rightarrow> YAMLNode option \<Rightarrow> int list \<Rightarrow> string \<Rightarrow> error + 'n SingleYAMLDocument"
where
  "createJSONDocument c yamlDoc startPositions text =
     (let (r, s) = recursivelyBuildAst c None yamlDoc []
      in case yamlDoc of
           None \<Rightarrow> Inl TypeError
         | Some d \<Rightarrow>
             (let errs0 = (if r = None then [structuralError d] else []);
                  errs = map convertError (filter errorEntry (errors (node_base d)));
                  warns = map convertError (filter (warningEntry text) (errors (node_base d)))
              in Inr \<lparr>lines = startPositions, root = r, nodes = s,
                      doc_errors = errs0 @ errs, doc_warnings = warns\<rparr>))"

section \<open>What a call leaves untouched\<close>

text \<open>
  The \<^verbatim>\<open>type\<close> property of a node, and the part of a node that is fixed when it is
  constructed: its type, parent, offset and length. \<open>extends s s'\<close> says that \<open>s'\<close>
  has every node of \<open>s\<close> at the same reference with the same fixed part.
\<close>

fun node_type :: "'n ASTNode \<Rightarrow> string" where
  "node_type (ObjectASTNode pa off len ps) = ''object''"
| "node_type (PropertyASTNode pa off len k v) = ''property''"
| "node_type (ArrayASTNode pa off len is) = ''array''"
| "node_type (StringASTNode pa off len v) = ''string''"
| "node_type (NumberASTNode pa off len v i) = ''number''"
| "node_type (BooleanASTNode pa off len v) = ''boolean''"
| "node_type (NullASTNode pa off len) = ''null''"

definition header :: "'n ASTNode \<Rightarrow> string \<times> ref option \<times> int \<times> int option" where
  "header n = (node_type n, parent_of n, offset_of n, length_of n)"

definition extends :: "'n store \<Rightarrow> 'n store \<Rightarrow> bool" where
  "extends s s' = (length s \<le> length s' \<and> map header (take (length s) s') = map header s)"

section \<open>SchemaBuilder: the custom tags of \<^verbatim>\<open>parse\<close>\<close>

text \<open>
  \<^verbatim>\<open>parse\<close> turns each custom tag string into a \<^verbatim>\<open>Type\<close> twice: once for the list it
  hands to \<^verbatim>\<open>Schema.create\<close>, once to assign it into the schema's
  \<^verbatim>\<open>compiledTypeMap\<close>. \<^verbatim>\<open>Schema.create\<close> and the parser that reads the schema belong to
  \<^verbatim>\<open>js-yaml\<close> and \<^verbatim>\<open>yaml-ast-parser\<close>; what is modelled here is the part that
  \<^verbatim>\<open>parse\<close> itself computes. \<open>split\<close> is \<^verbatim>\<open>String.prototype.split\<close> with a one-character
  separator; a \<^verbatim>\<open>Type\<close> is recorded with the tag and the kind it is constructed from.
\<close>

fun split :: "char \<Rightarrow> string \<Rightarrow> string list" where
  "split sep [] = [[]]"
| "split sep (x # xs) =
     (if x = sep then [] # split sep xs
      else (case split sep xs of
              [] \<Rightarrow> [[x]]
            | w # ws \<Rightarrow> (x # w) # ws))"

record Type =
  tag :: string
  kind :: string

definition customType :: "string \<Rightarrow> Type" where
  "customType t =
     (let typeInfo = split (CHR '' '') t
      in \<lparr>tag = hd typeInfo,
          kind = (case tl typeInfo of
                    [] \<Rightarrow> ''scalar''
                  | k # rest \<Rightarrow> if k = [] then ''scalar'' else k)\<rparr>)"

definition customTypes :: "string list \<Rightarrow> Type list" where
  "customTypes customTags = map customType customTags"

definition registerCustomTags :: "string list \<Rightarrow> (string \<rightharpoonup> Type) \<Rightarrow> (string \<rightharpoonup> Type)" where
  "registerCustomTags customTags compiledTypeMap =
     fold (\<lambda>t m. m(tag (customType t) \<mapsto> customType t)) customTags compiledTypeMap"

section \<open>An instance of the parser's functions\<close>

text \<open>
  For closed examples the parameters need values. In \<open>example_collaborators\<close> the
  parser's classifier answers \<^verbatim>\<open>string\<close> for every scalar, so a Boolean node in an
  example can only come from the patch of \<^verbatim>\<open>recursivelyBuildAst\<close>; the boolean parsers
  accept the affirmative tokens, the number parsers answer 0.
\<close>

definition example_collaborators :: "int collaborators" where
  "example_collaborators =
     \<lparr>determineScalarType = (\<lambda>n. ST_string),
      parseYamlBoolean = (\<lambda>v. v \<in> set [''y'', ''Y'', ''yes'', ''Yes'', ''YES'', ''on'', ''On'', ''ON'',
                                        ''true'', ''True'', ''TRUE'']),
      Yaml_parseYamlBoolean = (\<lambda>v. v \<in> set [''y'', ''Y'', ''yes'', ''Yes'', ''YES'', ''on'', ''On'',
                                             ''ON'', ''true'', ''True'', ''TRUE'']),
      Yaml_parseYamlInteger = (\<lambda>v. 0),
      Yaml_parseYamlFloat = (\<lambda>v. 0)\<rparr>"

text \<open>
  A text with a merge key repeated at offsets 5 and 14 (\<^verbatim>\<open>a:\<close>, then two indented lines
  \<^verbatim>\<open><<: *b\<close> and \<^verbatim>\<open><<: *c\<close>), the parser's \<^verbatim>\<open>duplicate key\<close> exception for the
  second one (column 2 of its line) with a chosen \<^verbatim>\<open>isWarning\<close> flag, a
  \<^verbatim>\<open>duplicate key\<close> exception at offset 6 with column 0, which is on no merge key in
  either text, the text of \<^verbatim>\<open>a: 1\<close> and \<^verbatim>\<open>a: 2\<close>, an exception with another reason,
  and a raw document (an empty map) that carries a given list of exceptions.
\<close>

definition merge_key_text :: string where
  "merge_key_text =
     ''a:'' @ [CHR 0x0A] @ ''  <<: *b'' @ [CHR 0x0A] @ ''  <<: *c'' @ [CHR 0x0A]"

definition duplicate_key_text :: string where
  "duplicate_key_text = ''a: 1'' @ [CHR 0x0A] @ ''a: 2'' @ [CHR 0x0A]"

definition merge_key_duplicate :: "bool \<Rightarrow> YAMLException" where
  "merge_key_duplicate w =
     \<lparr>reason = ''duplicate key'', isWarning = w, mark = \<lparr>position = 14, column = 2\<rparr>\<rparr>"

definition plain_key_duplicate :: "bool \<Rightarrow> YAMLException" where
  "plain_key_duplicate w =
     \<lparr>reason = ''duplicate key'', isWarning = w, mark = \<lparr>position = 6, column = 0\<rparr>\<rparr>"

definition syntax_exception :: "bool \<Rightarrow> YAMLException" where
  "syntax_exception w =
     \<lparr>reason = ''bad indentation of a mapping entry'', isWarning = w,
      mark = \<lparr>position = 3, column = 0\<rparr>\<rparr>"

definition example_document :: "YAMLException list \<Rightarrow> YAMLNode" where
  "example_document es = MAP \<lparr>startPosition = 0, endPosition = 21, errors = es\<rparr> []"

text \<open>
  The two example texts of the spec, with the entries that the parser hands over for
  them. It reports a conflict of two keys once for each of the two keys, at the offset of
  the key and with the column of the key in its line (0 for a key at the start of a line),
  not flagged as a warning: \<open>duplicate_key_at\<close>. \<open>spec_merge_key_text\<close> repeats the merge
  key at offsets 0 and 10; \<open>duplicate_key_document\<close> is the raw document of
  \<open>duplicate_key_text\<close>, which repeats the key \<^verbatim>\<open>a\<close> at offsets 0 and 5. In
  \<open>digit_collaborators\<close> the parser's classifier answers \<^verbatim>\<open>int\<close> for the plain
  scalars \<^verbatim>\<open>1\<close> and \<^verbatim>\<open>2\<close> and \<^verbatim>\<open>string\<close> for the rest.
\<close>

definition duplicate_key_at :: "int \<Rightarrow> int \<Rightarrow> YAMLException" where
  "duplicate_key_at p col =
     \<lparr>reason = ''duplicate key'', isWarning = False, mark = \<lparr>position = p, column = col\<rparr>\<rparr>"

definition spec_merge_key_text :: string where
  "spec_merge_key_text = ''<<: *base'' @ [CHR 0x0A] @ ''<<: *other'' @ [CHR 0x0A]"

definition digit_collaborators :: "int collaborators" where
  "digit_collaborators =
     \<lparr>determineScalarType =
        (\<lambda>n. case n of
               SCALAR b v p \<Rightarrow> if p \<and> (v = ''1'' \<or> v = ''2'') then ST_int else ST_string
             | _ \<Rightarrow> ST_string),
      parseYamlBoolean = (\<lambda>v. False),
      Yaml_parseYamlBoolean = (\<lambda>v. False),
      Yaml_parseYamlInteger = (\<lambda>v. if v = ''1'' then 1 else if v = ''2'' then 2 else 0),
      Yaml_parseYamlFloat = (\<lambda>v. 0)\<rparr>"

definition duplicate_key_document :: YAMLNode where
  "duplicate_key_document =
     MAP \<lparr>startPosition = 0, endPosition = 10,
          errors = [duplicate_key_at 5 0, duplicate_key_at 0 0]\<rparr>
       [MAPPING \<lparr>startPosition = 0, endPosition = 4, errors = []\<rparr>
          (SCALAR \<lparr>startPosition = 0, endPosition = 1, errors = []\<rparr> ''a'' True)
          (Some (SCALAR \<lparr>startPosition = 3, endPosition = 4, errors = []\<rparr> ''1'' True)),
        MAPPING \<lparr>startPosition = 5, endPosition = 9, errors = []\<rparr>
          (SCALAR \<lparr>startPosition = 5, endPosition = 6, errors = []\<rparr> ''a'' True)
          (Some (SCALAR \<lparr>startPosition = 8, endPosition = 9, errors = []\<rparr> ''2'' True))]"

section \<open>Stores only grow\<close>

text \<open>
  Every operation of the builder appends nodes or replaces a node by one with the same
  type, parent, offset and length; so does every call of \<^verbatim>\<open>recursivelyBuildAst\<close> and of
  its two loops.
\<close>

lemma extends_refl: "extends s s"
  by (simp add: extends_def)

lemma extends_nth: "extends s t \<Longrightarrow> a < length s \<Longrightarrow> header (t ! a) = header (s ! a)"
proof -
  assume e: "extends s t" and a: "a < length s"
  from e have eq: "map header (take (length s) t) = map header s"
    and le: "length s \<le> length t" by (simp_all add: extends_def)
  have "header (t ! a) = map header (take (length s) t) ! a" using a le by simp
  also have "\<dots> = map header s ! a" by (simp only: eq)
  also have "\<dots> = header (s ! a)" using a by simp
  finally show ?thesis .
qed

lemma extends_trans: "extends s t \<Longrightarrow> extends t u \<Longrightarrow> extends s u"
proof -
  assume e1: "extends s t" and e2: "extends t u"
  have len: "length s \<le> length t" "length t \<le> length u"
    using e1 e2 by (simp_all add: extends_def)
  have "map header (take (length s) u) = map header s"
  proof (rule nth_equalityI)
    show "length (map header (take (length s) u)) = length (map header s)"
      using len by simp
  next
    fix i assume "i < length (map header (take (length s) u))"
    then have i: "i < length s" by simp
    then have "header (u ! i) = header (t ! i)"
      using extends_nth [OF e2] len by simp
    also have "\<dots> = header (s ! i)" using extends_nth [OF e1 i] .
    finally show "map header (take (length s) u) ! i = map header s ! i"
      using i len by simp
  qed
  then show ?thesis using len by (simp add: extends_def)
qed

lemma extends_step: "extends s t \<Longrightarrow> extends t u \<Longrightarrow> extends u w \<Longrightarrow> extends s w"
  by (rule extends_trans [OF extends_trans])

lemma extends_append: "extends s (s @ [n])"
  by (simp add: extends_def)

lemma extends_update: "a < length s \<Longrightarrow> header n = header (s ! a) \<Longrightarrow> extends s (s[a := n])"
  by (simp add: extends_def map_update list_update_same_conv)

lemma extends_push_property: "extends s (push_property r p s)"
  by (auto simp: push_property_def extends_refl header_def intro!: extends_update split: ASTNode.splits)

lemma extends_push_item: "extends s (push_item r p s)"
  by (auto simp: push_item_def extends_refl header_def intro!: extends_update split: ASTNode.splits)

lemma extends_set_keyNode: "extends s (set_keyNode r p s)"
  by (auto simp: set_keyNode_def extends_refl header_def intro!: extends_update split: ASTNode.splits)

lemma extends_set_valueNode: "extends s (set_valueNode r p s)"
  by (auto simp: set_valueNode_def extends_refl header_def intro!: extends_update split: ASTNode.splits)

lemma extends_build:
  "extends s (snd (recursivelyBuildAst c parent node s))"
  "extends s (buildProperties c result ms s)"
  "extends s (buildItems c parent result b len count its s)"
proof (induction c parent node s and c result ms s and c parent result b len count its s
       rule: recursivelyBuildAst_buildProperties_buildItems.induct)
  case (1 c parent s)
  then show ?case by (simp add: extends_refl)
next
  case (2 c parent b mappings s)
  define n :: "'a ASTNode" where
    "n = ObjectASTNode parent (startPosition b) (Some (endPosition b - startPosition b)) []"
  have "extends (s @ [n]) (buildProperties c (length s) mappings (s @ [n]))"
    using 2 by (simp add: alloc_def n_def)
  then have "extends s (buildProperties c (length s) mappings (s @ [n]))"
    by (rule extends_trans [OF extends_append])
  then show ?case by (simp add: alloc_def n_def)
next
  case (3 c parent b key val s)
  define p :: "'a ASTNode" where
    "p = PropertyASTNode parent (startPosition (node_base key))
           (Some (endPosition b - startPosition (node_base key))) None None"
  define k :: "'a ASTNode" where
    "k = StringASTNode (Some (length s)) (startPosition (node_base key))
           (Some (endPosition (node_base key) - startPosition (node_base key))) (node_value key)"
  define s2 where "s2 = s @ [p, k]"
  have s2: "extends s s2"
    using extends_trans [OF extends_append [of s p] extends_append [of "s @ [p]" k]]
    by (simp add: s2_def)
  have fin: "extends s (set_valueNode r1 v1 (set_keyNode r2 v2 s3))" if "extends s s3"
    for r1 v1 r2 v2 s3
    by (rule extends_trans [OF extends_trans [OF that extends_set_keyNode] extends_set_valueNode])
  show ?case
  proof (cases val)
    case None
    have "extends s (s2 @ [NullASTNode parent (startPosition b) None])"
      by (rule extends_trans [OF s2 extends_append])
    from fin [OF this] show ?thesis
      using None by (simp add: alloc_def p_def k_def s2_def)
  next
    case (Some v)
    obtain r s3 where r: "recursivelyBuildAst c (Some (length s)) (Some v) s2 = (r, s3)"
      by (cases "recursivelyBuildAst c (Some (length s)) (Some v) s2")
    have "extends s2 (snd (recursivelyBuildAst c (Some (length s)) (Some v) s2))"
      by (rule 3 [OF refl _ refl _ Some]) (simp_all add: alloc_def p_def k_def s2_def)
    then have "extends s2 s3" using r by simp
    then have "extends s s3"
      by (rule extends_trans [OF s2])
    from fin [OF this] show ?thesis
      using Some r by (simp add: alloc_def p_def k_def s2_def)
  qed
next
  case (4 c parent b its s)
  define n :: "'a ASTNode" where
    "n = ArrayASTNode parent (startPosition b) (Some (endPosition b - startPosition b)) []"
  have "extends (s @ [n]) (buildItems c parent (length s) b (int (length its)) 0 its (s @ [n]))"
    using 4 by (simp add: alloc_def n_def)
  then have "extends s (buildItems c parent (length s) b (int (length its)) 0 its (s @ [n]))"
    by (rule extends_trans [OF extends_append])
  then show ?case by (simp add: alloc_def n_def)
next
  case (5 c parent b v plainScalar s)
  then show ?case
    by (simp add: alloc_def extends_refl extends_append split: ScalarType.splits)
next
  case (6 c parent b target s)
  obtain r s1 where r: "recursivelyBuildAst c parent target s = (r, s1)"
    by (cases "recursivelyBuildAst c parent target s")
  have e: "extends s s1" using 6 r by simp
  show ?case
  proof (cases r)
    case None
    then show ?thesis
      using r extends_trans [OF e extends_append] by (simp add: alloc_def)
  next
    case (Some a)
    then show ?thesis using r e by simp
  qed
next
  case (7 c parent b v s)
  then show ?case by (simp add: alloc_def extends_append)
next
  case (8 c parent b s)
  then show ?case by (simp add: extends_refl)
next
  case (9 c result s)
  then show ?case by (simp add: extends_refl)
next
  case (10 c result mapping rest s)
  obtain p s1 where r: "recursivelyBuildAst c (Some result) (Some mapping) s = (p, s1)"
    by (cases "recursivelyBuildAst c (Some result) (Some mapping) s")
  have "extends s s1" using 10(1) r by simp
  moreover have "extends s1 (push_property result p s1)" by (rule extends_push_property)
  moreover have "extends (push_property result p s1)
                   (buildProperties c result rest (push_property result p s1))"
    using 10(2) r by simp
  ultimately have "extends s (buildProperties c result rest (push_property result p s1))"
    by (rule extends_step)
  then show ?case using r by simp
next
  case (11 c parent result b len count s)
  then show ?case by (simp add: extends_refl)
next
  case (12 c parent result b len count item rest s)
  show ?case
  proof (cases "item = None \<and> count = len - 1")
    case True
    then show ?thesis by (simp add: extends_refl)
  next
    case False
    define r where
      "r = (case item of
              None \<Rightarrow>
                (let (n, s') = alloc (NullASTNode parent (startPosition b)
                                        (Some (endPosition b - startPosition b))) s
                 in (Some n, s'))
            | Some it \<Rightarrow> recursivelyBuildAst c (Some result) (Some it) s)"
    obtain itemNode s1 where r: "r = (itemNode, s1)" by (cases r)
    have "extends s s1"
    proof (cases item)
      case None
      then show ?thesis using r by (auto simp: r_def alloc_def extends_append)
    next
      case (Some it)
      then show ?thesis using 12(1) [OF False Some] r by (simp add: r_def)
    qed
    moreover have "extends s1 (push_item result itemNode s1)" by (rule extends_push_item)
    moreover have "extends (push_item result itemNode s1)
                     (buildItems c parent result b len count rest (push_item result itemNode s1))"
      using 12(2) [OF False r_def] r by simp
    ultimately have "extends s
        (buildItems c parent result b len count rest (push_item result itemNode s1))"
      by (rule extends_step)
    then show ?thesis using False r by (simp add: r_def extends_refl)
  qed
qed

section \<open>AstBuilder: spans\<close>

text \<open>
  Claim C8. A raw map is converted to an Object node and a raw sequence to an Array node
  whose offset is the raw node's \<^verbatim>\<open>startPosition\<close> and whose length is
  \<^verbatim>\<open>endPosition - startPosition\<close>: the span of the AST node is the half-open interval
  from start to end of the raw node, whatever the node has inside. The node is the one the
  call returns, it is in the store after the call, and its parent is the parent given.
\<close>

theorem object_array_span:
  "(recursivelyBuildAst c parent (Some (MAP b mappings)) s = (r, t) \<longrightarrow>
      r = Some (length s) \<and> length s < length t
      \<and> node_type (t ! length s) = ''object''
      \<and> parent_of (t ! length s) = parent
      \<and> offset_of (t ! length s) = startPosition b
      \<and> length_of (t ! length s) = Some (endPosition b - startPosition b))
   \<and> (recursivelyBuildAst c parent (Some (SEQ b its)) s = (r, t) \<longrightarrow>
      r = Some (length s) \<and> length s < length t
      \<and> node_type (t ! length s) = ''array''
      \<and> parent_of (t ! length s) = parent
      \<and> offset_of (t ! length s) = startPosition b
      \<and> length_of (t ! length s) = Some (endPosition b - startPosition b))"
proof (intro conjI impI)
  define n :: "'a ASTNode" where
    "n = ObjectASTNode parent (startPosition b) (Some (endPosition b - startPosition b)) []"
  assume "recursivelyBuildAst c parent (Some (MAP b mappings)) s = (r, t)"
  then have r: "r = Some (length s)"
    and t: "t = buildProperties c (length s) mappings (s @ [n])"
    by (simp_all add: alloc_def n_def)
  have e: "extends (s @ [n]) t"
    unfolding t by (rule extends_build)
  then have len: "length s < length t" by (simp add: extends_def)
  have "header (t ! length s) = header ((s @ [n]) ! length s)"
    by (rule extends_nth [OF e]) simp
  then have h: "header (t ! length s) = header n" by simp
  show "r = Some (length s)" by (rule r)
  show "length s < length t" by (rule len)
  show "node_type (t ! length s) = ''object''" using h by (simp add: header_def n_def)
  show "parent_of (t ! length s) = parent" using h by (simp add: header_def n_def)
  show "offset_of (t ! length s) = startPosition b" using h by (simp add: header_def n_def)
  show "length_of (t ! length s) = Some (endPosition b - startPosition b)"
    using h by (simp add: header_def n_def)
next
  define n :: "'a ASTNode" where
    "n = ArrayASTNode parent (startPosition b) (Some (endPosition b - startPosition b)) []"
  assume "recursivelyBuildAst c parent (Some (SEQ b its)) s = (r, t)"
  then have r: "r = Some (length s)"
    and t: "t = buildItems c parent (length s) b (int (length its)) 0 its (s @ [n])"
    by (simp_all add: alloc_def n_def)
  have e: "extends (s @ [n]) t"
    unfolding t by (rule extends_build)
  then have len: "length s < length t" by (simp add: extends_def)
  have "header (t ! length s) = header ((s @ [n]) ! length s)"
    by (rule extends_nth [OF e]) simp
  then have h: "header (t ! length s) = header n" by simp
  show "r = Some (length s)" by (rule r)
  show "length s < length t" by (rule len)
  show "node_type (t ! length s) = ''array''" using h by (simp add: header_def n_def)
  show "parent_of (t ! length s) = parent" using h by (simp add: header_def n_def)
  show "offset_of (t ! length s) = startPosition b" using h by (simp add: header_def n_def)
  show "length_of (t ! length s) = Some (endPosition b - startPosition b)"
    using h by (simp add: header_def n_def)
qed

theorem object_array_span_witness:
  "recursivelyBuildAst example_collaborators None
     (Some (MAP \<lparr>startPosition = 0, endPosition = 5, errors = []\<rparr>
              [MAPPING \<lparr>startPosition = 0, endPosition = 4, errors = []\<rparr>
                 (SCALAR \<lparr>startPosition = 0, endPosition = 1, errors = []\<rparr> ''a'' True)
                 (Some (SCALAR \<lparr>startPosition = 3, endPosition = 4, errors = []\<rparr> ''1'' True))])) []
   = (Some 0,
      [ObjectASTNode None 0 (Some 5) [Some 1],
       PropertyASTNode (Some 0) 0 (Some 4) (Some 2) (Some 3),
       StringASTNode (Some 1) 0 (Some 1) (ValueText ''a''),
       StringASTNode (Some 1) 3 (Some 1) (ValueText ''1'')])
   \<and> offset_of (ObjectASTNode None 0 (Some 5) [Some 1] :: int ASTNode) = 0
   \<and> length_of (ObjectASTNode None 0 (Some 5) [Some 1] :: int ASTNode) = Some (5 - 0)
   \<and> recursivelyBuildAst example_collaborators (Some 7)
     (Some (SEQ \<lparr>startPosition = 2, endPosition = 12, errors = []\<rparr>
              [Some (SCALAR \<lparr>startPosition = 4, endPosition = 5, errors = []\<rparr> ''a'' True),
               Some (SEQ \<lparr>startPosition = 8, endPosition = 11, errors = []\<rparr> [None])])) []
   = (Some 0,
      [ArrayASTNode (Some 7) 2 (Some 10) [Some 1, Some 2],
       StringASTNode (Some 0) 4 (Some 1) (ValueText ''a''),
       ArrayASTNode (Some 0) 8 (Some 3) []])
   \<and> offset_of (ArrayASTNode (Some 7) 2 (Some 10) [Some 1, Some 2] :: int ASTNode) = 2
   \<and> length_of (ArrayASTNode (Some 7) 2 (Some 10) [Some 1, Some 2] :: int ASTNode) = Some (12 - 2)"
proof -
  let ?m = "MAP \<lparr>startPosition = 0, endPosition = 5, errors = []\<rparr>
              [MAPPING \<lparr>startPosition = 0, endPosition = 4, errors = []\<rparr>
                 (SCALAR \<lparr>startPosition = 0, endPosition = 1, errors = []\<rparr> ''a'' True)
                 (Some (SCALAR \<lparr>startPosition = 3, endPosition = 4, errors = []\<rparr> ''1'' True))]"
  let ?q = "SEQ \<lparr>startPosition = 2, endPosition = 12, errors = []\<rparr>
              [Some (SCALAR \<lparr>startPosition = 4, endPosition = 5, errors = []\<rparr> ''a'' True),
               Some (SEQ \<lparr>startPosition = 8, endPosition = 11, errors = []\<rparr> [None])]"
  have m: "recursivelyBuildAst example_collaborators None (Some ?m) []
     = (Some 0,
        [ObjectASTNode None 0 (Some 5) [Some 1],
         PropertyASTNode (Some 0) 0 (Some 4) (Some 2) (Some 3),
         StringASTNode (Some 1) 0 (Some 1) (ValueText ''a''),
         StringASTNode (Some 1) 3 (Some 1) (ValueText ''1'')])"
    by (simp add: alloc_def push_property_def set_keyNode_def set_valueNode_def
          example_collaborators_def possibleBooleanValues_def)
  have q: "recursivelyBuildAst example_collaborators (Some 7) (Some ?q) []
     = (Some 0,
        [ArrayASTNode (Some 7) 2 (Some 10) [Some 1, Some 2],
         StringASTNode (Some 0) 4 (Some 1) (ValueText ''a''),
         ArrayASTNode (Some 0) 8 (Some 3) []])"
    by (simp add: alloc_def push_item_def example_collaborators_def possibleBooleanValues_def)
  from object_array_span [where c = example_collaborators and parent = None and s = "[]"
      and b = "\<lparr>startPosition = 0, endPosition = 5, errors = []\<rparr>"] m
    object_array_span [where c = example_collaborators and parent = "Some 7" and s = "[]"
      and b = "\<lparr>startPosition = 2, endPosition = 12, errors = []\<rparr>"] q
  show ?thesis by simp
qed

section \<open>AstBuilder: items and values that are absent\<close>

text \<open>
  Claim C1 says that an absent item in the last slot of a sequence is dropped for
  sequences of every length. The loop compares \<^verbatim>\<open>count\<close> with
  \<^verbatim>\<open>instance.items.length - 1\<close>, and \<^verbatim>\<open>count\<close> stays 0: for the two-item sequence of
  a scalar and an absent item the Array gets two items, the second one a Null node with the
  span of the sequence.
\<close>

theorem trailing_absent_item_of_two_is_kept:
  "recursivelyBuildAst example_collaborators None
     (Some (SEQ \<lparr>startPosition = 0, endPosition = 6, errors = []\<rparr>
              [Some (SCALAR \<lparr>startPosition = 2, endPosition = 3, errors = []\<rparr> ''a'' True),
               None])) []
   = (Some 0,
      [ArrayASTNode None 0 (Some 6) [Some 1, Some 2],
       StringASTNode (Some 0) 2 (Some 1) (ValueText ''a''),
       NullASTNode None 0 (Some 6)])"
  by (simp add: alloc_def push_item_def example_collaborators_def possibleBooleanValues_def)

text \<open>
  Claim C3 says that the Null node for an omitted mapping value has the mapping's span.
  The constructor call passes the mapping's start and no length: for every mapping
  without a value the Null node is built at \<^verbatim>\<open>startPosition\<close> with no length given.
\<close>

theorem omitted_value_null_has_no_length:
  "recursivelyBuildAst c parent (Some (MAPPING b key None)) s =
     (Some (length s),
      s @ [PropertyASTNode parent (startPosition (node_base key))
             (Some (endPosition b - startPosition (node_base key)))
             (Some (Suc (length s))) (Some (Suc (Suc (length s)))),
           StringASTNode (Some (length s)) (startPosition (node_base key))
             (Some (endPosition (node_base key) - startPosition (node_base key)))
             (node_value key),
           NullASTNode parent (startPosition b) None])"
  by (simp add: alloc_def set_keyNode_def set_valueNode_def nth_append list_update_append)

text \<open>
  Claim C7 says that every node's parent is the composite that holds it. Both Null nodes
  that the builder synthesizes are constructed with the \<^verbatim>\<open>parent\<close> argument of the call
  instead of \<^verbatim>\<open>result\<close>: in a map with the one mapping \<^verbatim>\<open>a:\<close> the Null value (node 3) is
  held by the Property (node 1) and has the Object (node 0) as parent, and in a root
  sequence whose first item is absent the Null item (node 1) is held by the Array (node 0)
  and has no parent.
\<close>

theorem synthesized_null_parent_is_the_callers:
  "recursivelyBuildAst example_collaborators None
     (Some (MAP \<lparr>startPosition = 0, endPosition = 3, errors = []\<rparr>
              [MAPPING \<lparr>startPosition = 0, endPosition = 2, errors = []\<rparr>
                 (SCALAR \<lparr>startPosition = 0, endPosition = 1, errors = []\<rparr> ''a'' True) None])) []
   = (Some 0,
      [ObjectASTNode None 0 (Some 3) [Some 1],
       PropertyASTNode (Some 0) 0 (Some 2) (Some 2) (Some 3),
       StringASTNode (Some 1) 0 (Some 1) (ValueText ''a''),
       NullASTNode (Some 0) 0 None])
   \<and> recursivelyBuildAst example_collaborators None
     (Some (SEQ \<lparr>startPosition = 0, endPosition = 6, errors = []\<rparr>
              [None,
               Some (SCALAR \<lparr>startPosition = 4, endPosition = 5, errors = []\<rparr> ''a'' True)])) []
   = (Some 0,
      [ArrayASTNode None 0 (Some 6) [Some 1, Some 2],
       NullASTNode None 0 (Some 6),
       StringASTNode (Some 0) 4 (Some 1) (ValueText ''a'')])"
  by (simp add: alloc_def push_property_def push_item_def set_keyNode_def set_valueNode_def
        example_collaborators_def possibleBooleanValues_def)

section \<open>ScalarClassifier\<close>

text \<open>
  Claim C5. A scalar whose \<^verbatim>\<open>plainScalar\<close> flag is set and whose text is one of the sixteen
  tokens becomes a Boolean node, with the value that \<^verbatim>\<open>parseYamlBoolean\<close> of
  \<^verbatim>\<open>./scalar-type\<close> gives and the scalar's span, whatever \<^verbatim>\<open>determineScalarType\<close> says.
  With the flag unset nothing is overridden, for these texts and for every other: the node
  is the one the switch on the result of \<^verbatim>\<open>determineScalarType\<close> builds; when that result
  is \<^verbatim>\<open>string\<close>, a String node with the text.
\<close>

theorem plain_boolean_token_is_boolean:
  "(plainScalar
      \<and> v \<in> {''y'', ''Y'', ''yes'', ''Yes'', ''YES'', ''n'', ''N'', ''no'', ''No'', ''NO'',
              ''on'', ''On'', ''ON'', ''off'', ''Off'', ''OFF''} \<longrightarrow>
      recursivelyBuildAst c parent (Some (SCALAR b v plainScalar)) s =
        (Some (length s),
         s @ [BooleanASTNode parent (startPosition b) (Some (endPosition b - startPosition b))
                (parseYamlBoolean c v)]))
   \<and> (\<not> plainScalar \<longrightarrow>
      recursivelyBuildAst c parent (Some (SCALAR b v plainScalar)) s =
        (case determineScalarType c (SCALAR b v plainScalar) of
           ST_null \<Rightarrow>
             (Some (length s),
              s @ [NullASTNode parent (startPosition b) (Some (endPosition b - startPosition b))])
         | ST_bool \<Rightarrow>
             (Some (length s),
              s @ [BooleanASTNode parent (startPosition b)
                     (Some (endPosition b - startPosition b)) (Yaml_parseYamlBoolean c v)])
         | ST_int \<Rightarrow>
             (Some (length s),
              s @ [NumberASTNode parent (startPosition b)
                     (Some (endPosition b - startPosition b)) (Yaml_parseYamlInteger c v) True])
         | ST_float \<Rightarrow>
             (Some (length s),
              s @ [NumberASTNode parent (startPosition b)
                     (Some (endPosition b - startPosition b)) (Yaml_parseYamlFloat c v) False])
         | ST_string \<Rightarrow>
             (Some (length s),
              s @ [StringASTNode parent (startPosition b)
                     (Some (endPosition b - startPosition b)) (ValueText v)])
         | ST_other \<Rightarrow> (None, s)))"
proof (intro conjI impI)
  assume "plainScalar
      \<and> v \<in> {''y'', ''Y'', ''yes'', ''Yes'', ''YES'', ''n'', ''N'', ''no'', ''No'', ''NO'',
              ''on'', ''On'', ''ON'', ''off'', ''Off'', ''OFF''}"
  then have p: "plainScalar" and v: "v \<in> set possibleBooleanValues"
    by (simp_all add: possibleBooleanValues_def)
  show "recursivelyBuildAst c parent (Some (SCALAR b v plainScalar)) s =
        (Some (length s),
         s @ [BooleanASTNode parent (startPosition b) (Some (endPosition b - startPosition b))
                (parseYamlBoolean c v)])"
    using p v by (simp add: alloc_def)
next
  assume "\<not> plainScalar"
  then show "recursivelyBuildAst c parent (Some (SCALAR b v plainScalar)) s =
        (case determineScalarType c (SCALAR b v plainScalar) of
           ST_null \<Rightarrow>
             (Some (length s),
              s @ [NullASTNode parent (startPosition b) (Some (endPosition b - startPosition b))])
         | ST_bool \<Rightarrow>
             (Some (length s),
              s @ [BooleanASTNode parent (startPosition b)
                     (Some (endPosition b - startPosition b)) (Yaml_parseYamlBoolean c v)])
         | ST_int \<Rightarrow>
             (Some (length s),
              s @ [NumberASTNode parent (startPosition b)
                     (Some (endPosition b - startPosition b)) (Yaml_parseYamlInteger c v) True])
         | ST_float \<Rightarrow>
             (Some (length s),
              s @ [NumberASTNode parent (startPosition b)
                     (Some (endPosition b - startPosition b)) (Yaml_parseYamlFloat c v) False])
         | ST_string \<Rightarrow>
             (Some (length s),
              s @ [StringASTNode parent (startPosition b)
                     (Some (endPosition b - startPosition b)) (ValueText v)])
         | ST_other \<Rightarrow> (None, s))"
    by (simp add: alloc_def split: ScalarType.splits)
qed

theorem plain_boolean_token_is_boolean_witness:
  "recursivelyBuildAst example_collaborators None
     (Some (SCALAR \<lparr>startPosition = 0, endPosition = 3, errors = []\<rparr> ''yes'' True)) []
   = (Some 0, [BooleanASTNode None 0 (Some 3) True])
   \<and> recursivelyBuildAst example_collaborators None
     (Some (SCALAR \<lparr>startPosition = 0, endPosition = 3, errors = []\<rparr> ''OFF'' True)) []
   = (Some 0, [BooleanASTNode None 0 (Some 3) False])
   \<and> determineScalarType example_collaborators
        (SCALAR \<lparr>startPosition = 0, endPosition = 5, errors = []\<rparr> ''yes'' False) = ST_string
   \<and> recursivelyBuildAst example_collaborators None
     (Some (SCALAR \<lparr>startPosition = 0, endPosition = 5, errors = []\<rparr> ''yes'' False)) []
   = (Some 0, [StringASTNode None 0 (Some 5) (ValueText ''yes'')])"
  using
    plain_boolean_token_is_boolean [where c = example_collaborators and parent = None
      and b = "\<lparr>startPosition = 0, endPosition = 3, errors = []\<rparr>" and v = "''yes''"
      and plainScalar = True and s = "[]"]
    plain_boolean_token_is_boolean [where c = example_collaborators and parent = None
      and b = "\<lparr>startPosition = 0, endPosition = 3, errors = []\<rparr>" and v = "''OFF''"
      and plainScalar = True and s = "[]"]
    plain_boolean_token_is_boolean [where c = example_collaborators and parent = None
      and b = "\<lparr>startPosition = 0, endPosition = 5, errors = []\<rparr>" and v = "''yes''"
      and plainScalar = False and s = "[]"]
  by (simp add: example_collaborators_def)

section \<open>DiagnosticFilter and the document\<close>

lemma createJSONDocument_Some:
  "createJSONDocument c (Some d) startPositions yamlText =
     Inr \<lparr>lines = startPositions,
          root = fst (recursivelyBuildAst c None (Some d) []),
          nodes = snd (recursivelyBuildAst c None (Some d) []),
          doc_errors =
            (if fst (recursivelyBuildAst c None (Some d) []) = None then [structuralError d]
             else [])
            @ map convertError (filter errorEntry (errors (node_base d))),
          doc_warnings = map convertError (filter (warningEntry yamlText) (errors (node_base d)))\<rparr>"
  by (simp add: createJSONDocument_def split: prod.splits)

lemma createJSONDocument_None: "createJSONDocument c None startPositions yamlText = Inl TypeError"
  by (simp add: createJSONDocument_def)

lemma document_diagnostics:
  assumes "createJSONDocument c (Some d) startPositions yamlText = Inr doc"
  shows "doc_errors doc =
           (if root doc = None then [structuralError d] else [])
           @ map convertError (filter errorEntry (errors (node_base d)))"
    and "doc_warnings doc = map convertError (filter (warningEntry yamlText) (errors (node_base d)))"
  using assms unfolding createJSONDocument_Some by auto

lemma isDuplicateAndNotMergeKey_iff:
  "isDuplicateAndNotMergeKey e yamlText \<longleftrightarrow>
     \<not> (reason e = ''duplicate key''
        \<and> startsWith (substring yamlText (position (mark e)) (position (mark e) + column (mark e)))
             ''<<'')"
  by (simp add: isDuplicateAndNotMergeKey_def convertError_def duplicateKeyReason_def)

lemma errorEntry_iff: "errorEntry e \<longleftrightarrow> reason e \<noteq> ''duplicate key'' \<and> \<not> isWarning e"
  by (simp add: errorEntry_def duplicateKeyReason_def)

lemma warningEntry_iff:
  "warningEntry yamlText e \<longleftrightarrow>
     (reason e = ''duplicate key''
        \<and> \<not> startsWith (substring yamlText (position (mark e)) (position (mark e) + column (mark e)))
               ''<<'')
     \<or> isWarning e"
  by (auto simp: warningEntry_def isDuplicateAndNotMergeKey_iff duplicateKeyReason_def)

lemma message_convertError: "message (convertError e) = reason e"
  by (simp add: convertError_def)

lemma message_structuralError: "message (structuralError d) = ''Expected a YAML object, array or literal''"
  by (simp add: structuralError_def localize_def)

lemma filter_message_convertError:
  "filter (\<lambda>x. message x = m) (map convertError es) = map convertError (filter (\<lambda>e. reason e = m) es)"
  by (induction es) (simp_all add: message_convertError)

lemma length_three_way:
  "length (filter P es) + length (filter Q es) + length (filter (\<lambda>e. \<not> P e \<and> \<not> Q e) es) = length es"
  if "\<And>e. \<not> (P e \<and> Q e)"
  using that by (induction es) auto

text \<open>
  Claim C4 says that a raw document whose top-level node yields no AST node gives a
  Document without a root whose error list starts with the structural error. The
  top-level node that yields no AST node is the absent one: \<^verbatim>\<open>recursivelyBuildAst\<close>
  returns nothing for it, and then the object literal of the structural error reads
  \<^verbatim>\<open>yamlDoc.startPosition\<close> of that absent document, which raises a \<^verbatim>\<open>TypeError\<close>:
  no Document is returned.
\<close>

theorem absent_document_raises:
  "recursivelyBuildAst c None None [] = (None, [])
   \<and> createJSONDocument c None startPositions yamlText = Inl TypeError"
  by (simp add: createJSONDocument_def)

text \<open>
  A raw node that is there yields no AST node only where a switch names no case for it:
  a kind other than the six, or a scalar type other than the five. For such a
  document, were the parser to hand one over, the structural error is pushed as the first
  error, and a returned document without a root always has it.
\<close>

lemma resolved_unless_unnamed:
  assumes r: "recursivelyBuildAst c parent (Some d) s = (None, t)"
  shows "(\<exists>b. d = OTHER_KIND b)
     \<or> (\<exists>b v p. d = SCALAR b v p \<and> determineScalarType c d = ST_other)"
proof (cases d)
  case (MAP b ms) then show ?thesis using r by (simp add: alloc_def split: prod.splits)
next
  case (MAPPING b k v) then show ?thesis using r by (simp add: alloc_def split: prod.splits)
next
  case (SEQ b its) then show ?thesis using r by (simp add: alloc_def split: prod.splits)
next
  case (SCALAR b v p)
  have "determineScalarType c (SCALAR b v p) = ST_other"
  proof (cases "determineScalarType c (SCALAR b v p)")
    case ST_other then show ?thesis .
  qed (use r SCALAR in \<open>simp_all add: alloc_def split: if_splits\<close>)
  then show ?thesis using SCALAR by simp
next
  case (ANCHOR_REF b target)
  obtain q u where "recursivelyBuildAst c parent target s = (q, u)"
    by (cases "recursivelyBuildAst c parent target s")
  then show ?thesis using r ANCHOR_REF by (cases q) (simp_all add: alloc_def)
next
  case (INCLUDE_REF b v) then show ?thesis using r by (simp add: alloc_def)
next
  case (OTHER_KIND b) then show ?thesis by simp
qed

lemma unresolved_root_is_reported:
  "(recursivelyBuildAst c None (Some d) [] = (None, s) \<longrightarrow>
      createJSONDocument c (Some d) startPositions yamlText =
        Inr \<lparr>lines = startPositions, root = None, nodes = s,
             doc_errors =
               \<lparr>message = ''Expected a YAML object, array or literal'',
                code = Some Undefined,
                location = \<lparr>start = startPosition (node_base d),
                            end_offset = endPosition (node_base d),
                            location_code = None\<rparr>\<rparr>
               # map convertError (filter errorEntry (errors (node_base d))),
             doc_warnings =
               map convertError (filter (warningEntry yamlText) (errors (node_base d)))\<rparr>)
   \<and> (createJSONDocument c yamlDoc startPositions yamlText = Inr doc \<and> root doc = None \<longrightarrow>
      doc_errors doc \<noteq> []
      \<and> message (hd (doc_errors doc)) = ''Expected a YAML object, array or literal'')"
proof (intro conjI impI)
  assume "recursivelyBuildAst c None (Some d) [] = (None, s)"
  then show "createJSONDocument c (Some d) startPositions yamlText =
        Inr \<lparr>lines = startPositions, root = None, nodes = s,
             doc_errors =
               \<lparr>message = ''Expected a YAML object, array or literal'',
                code = Some Undefined,
                location = \<lparr>start = startPosition (node_base d),
                            end_offset = endPosition (node_base d),
                            location_code = None\<rparr>\<rparr>
               # map convertError (filter errorEntry (errors (node_base d))),
             doc_warnings =
               map convertError (filter (warningEntry yamlText) (errors (node_base d)))\<rparr>"
    by (simp add: createJSONDocument_Some structuralError_def localize_def)
next
  assume a: "createJSONDocument c yamlDoc startPositions yamlText = Inr doc \<and> root doc = None"
  then obtain d where d: "yamlDoc = Some d"
    by (cases yamlDoc) (simp_all add: createJSONDocument_None)
  from a d have e: "doc_errors doc =
      structuralError d # map convertError (filter errorEntry (errors (node_base d)))"
    using document_diagnostics(1) [of c d startPositions yamlText doc] by simp
  show "doc_errors doc \<noteq> []" using e by simp
  show "message (hd (doc_errors doc)) = ''Expected a YAML object, array or literal''"
    using e by (simp add: message_structuralError)
qed

text \<open>
  Claim C2 says that a \<^verbatim>\<open>duplicate key\<close> entry on a merge key is in neither list. The
  filter takes the text from \<^verbatim>\<open>mark.position\<close> to \<^verbatim>\<open>mark.position + mark.column\<close>,
  which is empty for a key at the start of its line: for the spec's own text, where the
  merge key is repeated at offsets 0 and 10, both entries are warnings of the document,
  whatever mappings the raw map holds, although the text at either offset begins with
  \<^verbatim>\<open><<\<close>.
\<close>

theorem top_level_merge_key_duplicates_are_warnings:
  "createJSONDocument c
     (Some (MAP \<lparr>startPosition = 0, endPosition = 21,
                 errors = [duplicate_key_at 10 0, duplicate_key_at 0 0]\<rparr> mappings))
     startPositions spec_merge_key_text
   = Inr \<lparr>lines = startPositions, root = Some 0,
          nodes = buildProperties c 0 mappings [ObjectASTNode None 0 (Some 21) []],
          doc_errors = [],
          doc_warnings = [convertError (duplicate_key_at 10 0), convertError (duplicate_key_at 0 0)]\<rparr>
   \<and> startsWith (drop 10 spec_merge_key_text) ''<<''
   \<and> startsWith (drop 0 spec_merge_key_text) ''<<''
   \<and> substring spec_merge_key_text 10 (10 + 0) = []
   \<and> substring spec_merge_key_text 0 (0 + 0) = []"
  by (simp add: createJSONDocument_Some alloc_def duplicate_key_at_def spec_merge_key_text_def
        errorEntry_iff warningEntry_iff substring_def startsWith_def)

text \<open>
  The same holds of every \<^verbatim>\<open>duplicate key\<close> entry whose column is 0 or 1, in every
  text: the text that the filter looks at is shorter than \<^verbatim>\<open><<\<close>. Where the filter
  does find \<^verbatim>\<open><<\<close>, the text at the entry's offset begins with it; such an entry is
  never selected as an error, and is selected as a warning exactly when it is flagged
  \<^verbatim>\<open>isWarning\<close>.
\<close>

lemma clamp_mono: "a \<le> b \<Longrightarrow> min (max a 0) n \<le> min (max b (0::int)) n"
  by (auto simp: min_def max_def)

lemma clamp_close: "a \<le> b \<Longrightarrow> min (max b 0) n - min (max a (0::int)) n \<le> b - a"
  by (auto simp: min_def max_def)

lemma length_substring: "0 \<le> col \<Longrightarrow> length (substring t a (a + col)) \<le> nat col"
proof -
  assume c: "0 \<le> col"
  define n where "n = int (length t)"
  define lo where "lo = min (max a 0) n"
  define hi where "hi = min (max (a + col) 0) n"
  have le: "lo \<le> hi" unfolding lo_def hi_def by (rule clamp_mono) (use c in simp)
  have "hi - lo \<le> (a + col) - a" unfolding lo_def hi_def by (rule clamp_close) (use c in simp)
  then have d: "hi - lo \<le> col" by simp
  have "substring t a (a + col) = take (nat (max lo hi - min lo hi)) (drop (nat (min lo hi)) t)"
    unfolding substring_def Let_def lo_def hi_def n_def ..
  then have "substring t a (a + col) = take (nat (hi - lo)) (drop (nat lo) t)"
    using le by (simp add: max_absorb2 min_absorb1)
  then have "length (substring t a (a + col)) \<le> nat (hi - lo)" by simp
  then show ?thesis using d by linarith
qed

lemma startsWith_length: "startsWith s p \<Longrightarrow> length p \<le> length s"
proof -
  assume "startsWith s p"
  then have "take (length p) s = p" by (simp add: startsWith_def)
  then have "length (take (length p) s) = length p" by simp
  then show ?thesis by simp
qed

lemma column_below_two_is_kept:
  "reason e = ''duplicate key'' \<Longrightarrow> 0 \<le> column (mark e) \<Longrightarrow> column (mark e) < 2
     \<Longrightarrow> warningEntry yamlText e"
proof -
  assume r: "reason e = ''duplicate key''" and c0: "0 \<le> column (mark e)"
    and c2: "column (mark e) < 2"
  let ?s = "substring yamlText (position (mark e)) (position (mark e) + column (mark e))"
  have "length ?s \<le> nat (column (mark e))"
    by (rule length_substring [OF c0])
  then have l: "length ?s < 2" using c2 by simp
  have "\<not> startsWith ?s ''<<''"
  proof
    assume "startsWith ?s ''<<''"
    then have "length ''<<'' \<le> length ?s" by (rule startsWith_length)
    then show False using l by simp
  qed
  then show ?thesis using r by (simp add: warningEntry_iff)
qed

lemma startsWith_take: "startsWith (take k xs) p \<Longrightarrow> startsWith xs p"
proof -
  assume "startsWith (take k xs) p"
  then have e: "take (min (length p) k) xs = p" by (simp add: startsWith_def)
  then have "length (take (min (length p) k) xs) = length p" by (simp only:)
  then have "min (length p) k = length p" by (simp add: min_def split: if_splits)
  with e show ?thesis by (simp add: startsWith_def)
qed

lemma detected_is_at_merge_key:
  "startsWith (substring t p (p + col)) ''<<'' \<Longrightarrow> 0 \<le> p \<Longrightarrow> 0 \<le> col
     \<Longrightarrow> startsWith (drop (nat p) t) ''<<''"
proof -
  assume s: "startsWith (substring t p (p + col)) ''<<''" and p: "0 \<le> p" and c: "0 \<le> col"
  define n where "n = int (length t)"
  define lo where "lo = min (max p 0) n"
  define hi where "hi = min (max (p + col) 0) n"
  have le: "lo \<le> hi" unfolding lo_def hi_def by (rule clamp_mono) (use c in simp)
  have "substring t p (p + col) = take (nat (max lo hi - min lo hi)) (drop (nat (min lo hi)) t)"
    unfolding substring_def Let_def lo_def hi_def n_def ..
  then have sub: "substring t p (p + col) = take (nat (hi - lo)) (drop (nat lo) t)"
    using le by (simp add: max_absorb2 min_absorb1)
  have s': "startsWith (drop (nat lo) t) ''<<''"
    using s unfolding sub by (rule startsWith_take)
  show ?thesis
  proof (cases "p \<le> n")
    case True
    then have "lo = p" using p by (simp add: lo_def)
    with s' show ?thesis by simp
  next
    case False
    then have "lo = n" using p by (simp add: lo_def)
    then have "drop (nat lo) t = []" by (simp add: n_def)
    with s' show ?thesis by (simp add: startsWith_def)
  qed
qed

lemma detected_merge_key_duplicate:
  "reason e = ''duplicate key''
   \<and> startsWith (substring yamlText (position (mark e)) (position (mark e) + column (mark e))) ''<<''
   \<and> errors (node_base d) = es1 @ e # es2
   \<and> createJSONDocument c (Some d) startPositions yamlText = Inr doc \<longrightarrow>
     \<not> errorEntry e \<and> (warningEntry yamlText e \<longleftrightarrow> isWarning e)
     \<and> doc_errors doc =
         (if root doc = None then [structuralError d] else [])
         @ map convertError (filter errorEntry (es1 @ es2))
     \<and> doc_warnings doc =
         map convertError (filter (warningEntry yamlText) es1)
         @ (if isWarning e then [convertError e] else [])
         @ map convertError (filter (warningEntry yamlText) es2)"
proof (intro impI)
  assume a: "reason e = ''duplicate key''
   \<and> startsWith (substring yamlText (position (mark e)) (position (mark e) + column (mark e))) ''<<''
   \<and> errors (node_base d) = es1 @ e # es2
   \<and> createJSONDocument c (Some d) startPositions yamlText = Inr doc"
  then have ne: "\<not> errorEntry e" and w: "warningEntry yamlText e \<longleftrightarrow> isWarning e"
    by (simp_all add: errorEntry_iff warningEntry_iff)
  from a have es: "errors (node_base d) = es1 @ e # es2"
    and doc: "createJSONDocument c (Some d) startPositions yamlText = Inr doc" by simp_all
  show "\<not> errorEntry e \<and> (warningEntry yamlText e \<longleftrightarrow> isWarning e)
     \<and> doc_errors doc =
         (if root doc = None then [structuralError d] else [])
         @ map convertError (filter errorEntry (es1 @ es2))
     \<and> doc_warnings doc =
         map convertError (filter (warningEntry yamlText) es1)
         @ (if isWarning e then [convertError e] else [])
         @ map convertError (filter (warningEntry yamlText) es2)"
    using ne w document_diagnostics [OF doc] by (simp add: es)
qed

text \<open>
  Claim C6 says that an input with a normal duplicate key gives exactly one warning with
  the reason \<^verbatim>\<open>duplicate key\<close>. The parser reports the conflict at both keys and the
  filter keeps every entry: for the text of \<^verbatim>\<open>a: 1\<close> and \<^verbatim>\<open>a: 2\<close> the document has
  two such warnings, and no error.
\<close>

theorem one_duplicate_key_gives_two_warnings:
  "createJSONDocument digit_collaborators (Some duplicate_key_document) [0, 5] duplicate_key_text
   = Inr \<lparr>lines = [0, 5], root = Some 0,
          nodes =
            [ObjectASTNode None 0 (Some 10) [Some 1, Some 4],
             PropertyASTNode (Some 0) 0 (Some 4) (Some 2) (Some 3),
             StringASTNode (Some 1) 0 (Some 1) (ValueText ''a''),
             NumberASTNode (Some 1) 3 (Some 1) 1 True,
             PropertyASTNode (Some 0) 5 (Some 4) (Some 5) (Some 6),
             StringASTNode (Some 4) 5 (Some 1) (ValueText ''a''),
             NumberASTNode (Some 4) 8 (Some 1) 2 True],
          doc_errors = [],
          doc_warnings = [convertError (duplicate_key_at 5 0), convertError (duplicate_key_at 0 0)]\<rparr>
   \<and> message (convertError (duplicate_key_at 5 0)) = ''duplicate key''
   \<and> message (convertError (duplicate_key_at 0 0)) = ''duplicate key''"
  by (simp add: createJSONDocument_Some duplicate_key_document_def duplicate_key_at_def
        duplicate_key_text_def digit_collaborators_def possibleBooleanValues_def alloc_def
        push_property_def set_keyNode_def set_valueNode_def errorEntry_iff warningEntry_iff
        substring_def startsWith_def convertError_def)

text \<open>
  Claim C6, amended. Of the entries of one document that are not a \<^verbatim>\<open>duplicate key\<close> on
  a merge key: one whose reason is \<^verbatim>\<open>duplicate key\<close>, and one flagged \<^verbatim>\<open>isWarning\<close>
  whatever its reason, is selected as a warning and not as an error, and its conversion is
  among the document's warnings; every other one is selected as an error and not as a
  warning, and its conversion is among the document's errors. No error of a document has
  the message \<^verbatim>\<open>duplicate key\<close>, and when no entry is a duplicate on a merge key there
  are as many warnings with that message as the parser reports entries with that reason:
  two for one repeated key.
\<close>

theorem other_entries_classified:
  "createJSONDocument c (Some d) startPositions yamlText = Inr doc
   \<and> e \<in> set (errors (node_base d))
   \<and> \<not> (reason e = ''duplicate key''
        \<and> startsWith (substring yamlText (position (mark e)) (position (mark e) + column (mark e)))
             ''<<'') \<longrightarrow>
     (reason e = ''duplicate key'' \<or> isWarning e \<longrightarrow>
        warningEntry yamlText e \<and> \<not> errorEntry e \<and> convertError e \<in> set (doc_warnings doc))
     \<and> (reason e \<noteq> ''duplicate key'' \<and> \<not> isWarning e \<longrightarrow>
        errorEntry e \<and> \<not> warningEntry yamlText e \<and> convertError e \<in> set (doc_errors doc))
     \<and> filter (\<lambda>x. message x = ''duplicate key'') (doc_errors doc) = []
     \<and> ((\<forall>e' \<in> set (errors (node_base d)).
            \<not> (reason e' = ''duplicate key''
               \<and> startsWith
                    (substring yamlText (position (mark e')) (position (mark e') + column (mark e')))
                    ''<<'')) \<longrightarrow>
         length (filter (\<lambda>x. message x = ''duplicate key'') (doc_warnings doc))
           = length (filter (\<lambda>e'. reason e' = ''duplicate key'') (errors (node_base d))))"
proof (intro impI)
  assume a: "createJSONDocument c (Some d) startPositions yamlText = Inr doc
   \<and> e \<in> set (errors (node_base d))
   \<and> \<not> (reason e = ''duplicate key''
        \<and> startsWith (substring yamlText (position (mark e)) (position (mark e) + column (mark e)))
             ''<<'')"
  then have doc: "createJSONDocument c (Some d) startPositions yamlText = Inr doc"
    and e: "e \<in> set (errors (node_base d))"
    and nm: "\<not> (reason e = ''duplicate key''
        \<and> startsWith (substring yamlText (position (mark e)) (position (mark e) + column (mark e)))
             ''<<'')"
    by simp_all
  note dd = document_diagnostics [OF doc]
  have w: "reason e = ''duplicate key'' \<or> isWarning e \<longrightarrow>
        warningEntry yamlText e \<and> \<not> errorEntry e \<and> convertError e \<in> set (doc_warnings doc)"
  proof
    assume h: "reason e = ''duplicate key'' \<or> isWarning e"
    then have we: "warningEntry yamlText e" using nm by (auto simp: warningEntry_iff)
    moreover have "\<not> errorEntry e" using h by (auto simp: errorEntry_iff)
    moreover have "convertError e \<in> set (doc_warnings doc)"
      using we e by (simp add: dd(2))
    ultimately show
      "warningEntry yamlText e \<and> \<not> errorEntry e \<and> convertError e \<in> set (doc_warnings doc)"
      by simp
  qed
  have r: "reason e \<noteq> ''duplicate key'' \<and> \<not> isWarning e \<longrightarrow>
        errorEntry e \<and> \<not> warningEntry yamlText e \<and> convertError e \<in> set (doc_errors doc)"
  proof
    assume h: "reason e \<noteq> ''duplicate key'' \<and> \<not> isWarning e"
    then have ee: "errorEntry e" by (simp add: errorEntry_iff)
    moreover have "\<not> warningEntry yamlText e" using h by (simp add: warningEntry_iff)
    moreover have "convertError e \<in> set (doc_errors doc)"
      using ee e by (simp add: dd(1))
    ultimately show
      "errorEntry e \<and> \<not> warningEntry yamlText e \<and> convertError e \<in> set (doc_errors doc)"
      by simp
  qed
  have "filter (\<lambda>e'. reason e' = ''duplicate key'') (filter errorEntry (errors (node_base d))) = []"
    by (auto simp: errorEntry_iff filter_empty_conv)
  then have z: "filter (\<lambda>x. message x = ''duplicate key'') (doc_errors doc) = []"
    by (simp add: dd(1) filter_message_convertError message_structuralError)
  have n: "(\<forall>e' \<in> set (errors (node_base d)).
            \<not> (reason e' = ''duplicate key''
               \<and> startsWith
                    (substring yamlText (position (mark e')) (position (mark e') + column (mark e')))
                    ''<<'')) \<longrightarrow>
         length (filter (\<lambda>x. message x = ''duplicate key'') (doc_warnings doc))
           = length (filter (\<lambda>e'. reason e' = ''duplicate key'') (errors (node_base d)))"
  proof
    assume all: "\<forall>e' \<in> set (errors (node_base d)).
            \<not> (reason e' = ''duplicate key''
               \<and> startsWith
                    (substring yamlText (position (mark e')) (position (mark e') + column (mark e')))
                    ''<<'')"
    have "filter (\<lambda>e'. reason e' = ''duplicate key'')
            (filter (warningEntry yamlText) (errors (node_base d)))
          = filter (\<lambda>e'. reason e' = ''duplicate key'') (errors (node_base d))"
      unfolding filter_filter
      by (rule filter_cong [OF refl]) (use all in \<open>auto simp: warningEntry_iff\<close>)
    then show "length (filter (\<lambda>x. message x = ''duplicate key'') (doc_warnings doc))
           = length (filter (\<lambda>e'. reason e' = ''duplicate key'') (errors (node_base d)))"
      by (simp add: dd(2) filter_message_convertError)
  qed
  from w r z n show
    "(reason e = ''duplicate key'' \<or> isWarning e \<longrightarrow>
        warningEntry yamlText e \<and> \<not> errorEntry e \<and> convertError e \<in> set (doc_warnings doc))
     \<and> (reason e \<noteq> ''duplicate key'' \<and> \<not> isWarning e \<longrightarrow>
        errorEntry e \<and> \<not> warningEntry yamlText e \<and> convertError e \<in> set (doc_errors doc))
     \<and> filter (\<lambda>x. message x = ''duplicate key'') (doc_errors doc) = []
     \<and> ((\<forall>e' \<in> set (errors (node_base d)).
            \<not> (reason e' = ''duplicate key''
               \<and> startsWith
                    (substring yamlText (position (mark e')) (position (mark e') + column (mark e')))
                    ''<<'')) \<longrightarrow>
         length (filter (\<lambda>x. message x = ''duplicate key'') (doc_warnings doc))
           = length (filter (\<lambda>e'. reason e' = ''duplicate key'') (errors (node_base d))))"
    by blast
qed

theorem other_entries_classified_witness:
  "createJSONDocument digit_collaborators (Some duplicate_key_document) [0, 5] duplicate_key_text
   = Inr \<lparr>lines = [0, 5], root = Some 0,
          nodes =
            [ObjectASTNode None 0 (Some 10) [Some 1, Some 4],
             PropertyASTNode (Some 0) 0 (Some 4) (Some 2) (Some 3),
             StringASTNode (Some 1) 0 (Some 1) (ValueText ''a''),
             NumberASTNode (Some 1) 3 (Some 1) 1 True,
             PropertyASTNode (Some 0) 5 (Some 4) (Some 5) (Some 6),
             StringASTNode (Some 4) 5 (Some 1) (ValueText ''a''),
             NumberASTNode (Some 4) 8 (Some 1) 2 True],
          doc_errors = [],
          doc_warnings = [convertError (duplicate_key_at 5 0), convertError (duplicate_key_at 0 0)]\<rparr>
   \<and> errors (node_base duplicate_key_document) = [duplicate_key_at 5 0, duplicate_key_at 0 0]
   \<and> reason (duplicate_key_at 5 0) = ''duplicate key''
   \<and> \<not> startsWith (substring duplicate_key_text 5 (5 + 0)) ''<<''
   \<and> \<not> startsWith (substring duplicate_key_text 0 (0 + 0)) ''<<''
   \<and> warningEntry duplicate_key_text (duplicate_key_at 5 0)
   \<and> \<not> errorEntry (duplicate_key_at 5 0)
   \<and> convertError (duplicate_key_at 5 0)
       \<in> set [convertError (duplicate_key_at 5 0), convertError (duplicate_key_at 0 0)]
   \<and> length (filter (\<lambda>x. message x = ''duplicate key'')
               [convertError (duplicate_key_at 5 0), convertError (duplicate_key_at 0 0)])
       = length (filter (\<lambda>e'. reason e' = ''duplicate key'')
                   [duplicate_key_at 5 0, duplicate_key_at 0 0])
   \<and> length (filter (\<lambda>e'. reason e' = ''duplicate key'')
               [duplicate_key_at 5 0, duplicate_key_at 0 0]) = 2
   \<and> isWarning (syntax_exception True)
   \<and> warningEntry duplicate_key_text (syntax_exception True)
   \<and> \<not> errorEntry (syntax_exception True)
   \<and> reason (syntax_exception False) \<noteq> ''duplicate key''
   \<and> errorEntry (syntax_exception False)
   \<and> \<not> warningEntry duplicate_key_text (syntax_exception False)"
proof -
  let ?doc = "\<lparr>lines = [0, 5], root = Some 0,
          nodes =
            [ObjectASTNode None 0 (Some 10) [Some 1, Some 4],
             PropertyASTNode (Some 0) 0 (Some 4) (Some 2) (Some 3),
             StringASTNode (Some 1) 0 (Some 1) (ValueText ''a''),
             NumberASTNode (Some 1) 3 (Some 1) (1::int) True,
             PropertyASTNode (Some 0) 5 (Some 4) (Some 5) (Some 6),
             StringASTNode (Some 4) 5 (Some 1) (ValueText ''a''),
             NumberASTNode (Some 4) 8 (Some 1) 2 True],
          doc_errors = [],
          doc_warnings = [convertError (duplicate_key_at 5 0), convertError (duplicate_key_at 0 0)]\<rparr>"
  let ?d2 = "example_document [syntax_exception False, syntax_exception True]"
  let ?doc2 = "\<lparr>lines = [0, 5], root = Some 0,
          nodes = [ObjectASTNode None 0 (Some 21) [] :: int ASTNode],
          doc_errors = [convertError (syntax_exception False)],
          doc_warnings = [convertError (syntax_exception True)]\<rparr>"
  have c: "createJSONDocument digit_collaborators (Some duplicate_key_document) [0, 5]
             duplicate_key_text = Inr ?doc"
    by (simp add: createJSONDocument_Some duplicate_key_document_def duplicate_key_at_def
          duplicate_key_text_def digit_collaborators_def possibleBooleanValues_def alloc_def
          push_property_def set_keyNode_def set_valueNode_def errorEntry_iff warningEntry_iff
          substring_def startsWith_def convertError_def)
  have es: "errors (node_base duplicate_key_document) = [duplicate_key_at 5 0, duplicate_key_at 0 0]"
    by (simp add: duplicate_key_document_def)
  have n5: "\<not> startsWith (substring duplicate_key_text 5 (5 + 0)) ''<<''"
    by (simp add: duplicate_key_text_def substring_def startsWith_def)
  have n0: "\<not> startsWith (substring duplicate_key_text 0 (0 + 0)) ''<<''"
    by (simp add: duplicate_key_text_def substring_def startsWith_def)
  have m: "\<forall>e' \<in> set (errors (node_base duplicate_key_document)).
      \<not> (reason e' = ''duplicate key''
         \<and> startsWith
              (substring duplicate_key_text (position (mark e'))
                 (position (mark e') + column (mark e')))
              ''<<'')"
    using n5 n0 by (simp add: es duplicate_key_at_def)
  have w1: "warningEntry duplicate_key_text (duplicate_key_at 5 0)
      \<and> \<not> errorEntry (duplicate_key_at 5 0)
      \<and> convertError (duplicate_key_at 5 0)
          \<in> set [convertError (duplicate_key_at 5 0), convertError (duplicate_key_at 0 0)]
      \<and> length (filter (\<lambda>x. message x = ''duplicate key'')
                  [convertError (duplicate_key_at 5 0), convertError (duplicate_key_at 0 0)])
          = length (filter (\<lambda>e'. reason e' = ''duplicate key'')
                      [duplicate_key_at 5 0, duplicate_key_at 0 0])"
    using other_entries_classified
      [where c = digit_collaborators and d = duplicate_key_document and startPositions = "[0, 5]"
        and yamlText = duplicate_key_text and e = "duplicate_key_at 5 0" and doc = ?doc]
      c n5 m
    by (simp add: es duplicate_key_at_def)
  have c2: "createJSONDocument example_collaborators (Some ?d2) [0, 5] duplicate_key_text
      = Inr ?doc2"
    by (simp add: createJSONDocument_Some example_document_def syntax_exception_def
          errorEntry_iff warningEntry_iff alloc_def)
  have w2: "warningEntry duplicate_key_text (syntax_exception True)
      \<and> \<not> errorEntry (syntax_exception True)"
    using other_entries_classified
      [where c = example_collaborators and d = ?d2 and startPositions = "[0, 5]"
        and yamlText = duplicate_key_text and e = "syntax_exception True" and doc = ?doc2] c2
    by (simp add: example_document_def syntax_exception_def)
  have w3: "errorEntry (syntax_exception False)
      \<and> \<not> warningEntry duplicate_key_text (syntax_exception False)"
    using other_entries_classified
      [where c = example_collaborators and d = ?d2 and startPositions = "[0, 5]"
        and yamlText = duplicate_key_text and e = "syntax_exception False" and doc = ?doc2] c2
    by (simp add: example_document_def syntax_exception_def)
  have two: "length (filter (\<lambda>e'. reason e' = ''duplicate key'')
               [duplicate_key_at 5 0, duplicate_key_at 0 0]) = 2"
    by (simp add: duplicate_key_at_def)
  show ?thesis using c es n5 n0 w1 w2 w3 two
    by (simp add: duplicate_key_at_def syntax_exception_def)
qed

text \<open>
  Claim C10. The errors of a document (after the structural one, if any) are the
  conversions of the entries that the error filter selects, its warnings those of the
  entries that the warning filter selects, and no entry is selected by both: the two
  selections are disjoint, and together with the entries that neither selects (the dropped
  ones) they account for every entry once.
\<close>

theorem errors_and_warnings_disjoint:
  "createJSONDocument c (Some d) startPositions yamlText = Inr doc \<longrightarrow>
     doc_errors doc =
       (if root doc = None then [structuralError d] else [])
       @ map convertError (filter errorEntry (errors (node_base d)))
     \<and> doc_warnings doc = map convertError (filter (warningEntry yamlText) (errors (node_base d)))
     \<and> set (filter errorEntry (errors (node_base d)))
         \<inter> set (filter (warningEntry yamlText) (errors (node_base d))) = {}
     \<and> length (filter errorEntry (errors (node_base d)))
         + length (filter (warningEntry yamlText) (errors (node_base d)))
         + length (filter (\<lambda>e. \<not> errorEntry e \<and> \<not> warningEntry yamlText e)
                     (errors (node_base d)))
         = length (errors (node_base d))
     \<and> \<not> (errorEntry e \<and> warningEntry yamlText e)"
proof
  assume doc: "createJSONDocument c (Some d) startPositions yamlText = Inr doc"
  have x: "\<not> (errorEntry e \<and> warningEntry yamlText e)" for e
    by (auto simp: errorEntry_iff warningEntry_iff)
  have i: "set (filter errorEntry (errors (node_base d)))
         \<inter> set (filter (warningEntry yamlText) (errors (node_base d))) = {}"
    using x by auto
  have l: "length (filter errorEntry (errors (node_base d)))
         + length (filter (warningEntry yamlText) (errors (node_base d)))
         + length (filter (\<lambda>e. \<not> errorEntry e \<and> \<not> warningEntry yamlText e)
                     (errors (node_base d)))
         = length (errors (node_base d))"
    by (rule length_three_way) (rule x)
  show "doc_errors doc =
       (if root doc = None then [structuralError d] else [])
       @ map convertError (filter errorEntry (errors (node_base d)))
     \<and> doc_warnings doc = map convertError (filter (warningEntry yamlText) (errors (node_base d)))
     \<and> set (filter errorEntry (errors (node_base d)))
         \<inter> set (filter (warningEntry yamlText) (errors (node_base d))) = {}
     \<and> length (filter errorEntry (errors (node_base d)))
         + length (filter (warningEntry yamlText) (errors (node_base d)))
         + length (filter (\<lambda>e. \<not> errorEntry e \<and> \<not> warningEntry yamlText e)
                     (errors (node_base d)))
         = length (errors (node_base d))
     \<and> \<not> (errorEntry e \<and> warningEntry yamlText e)"
    using document_diagnostics [OF doc] i l x by simp
qed

theorem errors_and_warnings_disjoint_witness:
  "createJSONDocument example_collaborators
     (Some (example_document
              [syntax_exception False, plain_key_duplicate False, merge_key_duplicate False,
               syntax_exception True]))
     [0, 3, 12] merge_key_text
   = Inr \<lparr>lines = [0, 3, 12], root = Some 0, nodes = [ObjectASTNode None 0 (Some 21) []],
          doc_errors = [convertError (syntax_exception False)],
          doc_warnings =
            [convertError (plain_key_duplicate False), convertError (syntax_exception True)]\<rparr>
   \<and> filter errorEntry
       [syntax_exception False, plain_key_duplicate False, merge_key_duplicate False,
        syntax_exception True]
     = [syntax_exception False]
   \<and> filter (warningEntry merge_key_text)
       [syntax_exception False, plain_key_duplicate False, merge_key_duplicate False,
        syntax_exception True]
     = [plain_key_duplicate False, syntax_exception True]
   \<and> set [syntax_exception False] \<inter> set [plain_key_duplicate False, syntax_exception True] = {}
   \<and> length
       (filter (\<lambda>e. \<not> errorEntry e \<and> \<not> warningEntry merge_key_text e)
          [syntax_exception False, plain_key_duplicate False, merge_key_duplicate False,
           syntax_exception True])
     = 1"
proof -
  let ?es = "[syntax_exception False, plain_key_duplicate False, merge_key_duplicate False,
              syntax_exception True]"
  have c: "createJSONDocument example_collaborators (Some (example_document ?es))
       [0, 3, 12] merge_key_text
     = Inr \<lparr>lines = [0, 3, 12], root = Some 0, nodes = [ObjectASTNode None 0 (Some 21) []],
            doc_errors = [convertError (syntax_exception False)],
            doc_warnings =
              [convertError (plain_key_duplicate False), convertError (syntax_exception True)]\<rparr>"
    by (simp add: createJSONDocument_Some example_document_def plain_key_duplicate_def
          merge_key_duplicate_def syntax_exception_def merge_key_text_def errorEntry_iff
          warningEntry_iff alloc_def substring_def startsWith_def)
  have f: "filter errorEntry ?es = [syntax_exception False]"
    by (simp add: plain_key_duplicate_def merge_key_duplicate_def syntax_exception_def
          errorEntry_iff)
  have g: "filter (warningEntry merge_key_text) ?es
      = [plain_key_duplicate False, syntax_exception True]"
    by (simp add: plain_key_duplicate_def merge_key_duplicate_def syntax_exception_def
          merge_key_text_def warningEntry_iff substring_def startsWith_def)
  from errors_and_warnings_disjoint
      [where c = example_collaborators and d = "example_document ?es"
        and startPositions = "[0, 3, 12]" and yamlText = merge_key_text
        and doc = "\<lparr>lines = [0, 3, 12], root = Some 0,
                    nodes = [ObjectASTNode None 0 (Some 21) [] :: int ASTNode],
                    doc_errors = [convertError (syntax_exception False)],
                    doc_warnings =
                      [convertError (plain_key_duplicate False),
                       convertError (syntax_exception True)]\<rparr>"] c
  have "set (filter errorEntry ?es) \<inter> set (filter (warningEntry merge_key_text) ?es) = {}
      \<and> length (filter errorEntry ?es) + length (filter (warningEntry merge_key_text) ?es)
          + length (filter (\<lambda>e. \<not> errorEntry e \<and> \<not> warningEntry merge_key_text e) ?es)
          = length ?es"
    by (simp add: example_document_def)
  then have "set [syntax_exception False]
        \<inter> set [plain_key_duplicate False, syntax_exception True] = {}
      \<and> length (filter (\<lambda>e. \<not> errorEntry e \<and> \<not> warningEntry merge_key_text e) ?es) = 1"
    unfolding f g by simp
  then show ?thesis using c f g by simp
qed

section \<open>Custom tags listed twice\<close>

text \<open>
  Of what \<^verbatim>\<open>parse\<close> computes from the custom tags, the assignments into
  \<^verbatim>\<open>compiledTypeMap\<close> do not see a repetition: with a tag listed twice the map gets the
  entries it gets with the tag listed once. The list handed to \<^verbatim>\<open>Schema.create\<close>
  has the type twice; what the schema and the parser make of that is theirs to decide.
\<close>

lemma custom_tag_listed_twice:
  "registerCustomTags [t, t] m = registerCustomTags [t] m"
  "customTypes [t, t] = [customType t, customType t]"
  by (simp_all add: registerCustomTags_def customTypes_def)

lemma custom_tag_default_kind:
  "customType ''!foo'' = \<lparr>tag = ''!foo'', kind = ''scalar''\<rparr>"
  "customType ''!foo scalar'' = \<lparr>tag = ''!foo'', kind = ''scalar''\<rparr>"
  "customType ''!bar mapping'' = \<lparr>tag = ''!bar'', kind = ''mapping''\<rparr>"
  by (simp_all add: customType_def)

end
